theory Spec2Isabelle
  imports Main "HOL-Library.Word"
begin

section \<open>The binding of the scanner SDK: ricoh-scanner.cc\<close>

text \<open>
  The module keeps two globals, \<open>g_hScanner\<close> and \<open>g_bInitialized\<close>, and exports four
  operations (\<open>initialize\<close>, \<open>getScanners\<close>, \<open>scan\<close>, \<open>cleanup\<close>) that call a closed
  vendor driver. The driver is not part of the repository, so it is a parameter of the
  model: a record of state transformers over an arbitrary driver state \<open>'v\<close>, together
  with the constants of its header \<open>PfuSsApi.h\<close>. Every call into the driver is logged,
  with its arguments and the return code the binding looks at, so that the order of the
  calls can be stated. The two globals are \<open>static\<close>: the driver cannot reach them,
  except \<open>g_hScanner\<close> through the address that \<open>PfuSsOpenDevice\<close> is given, and the
  model lets it write there during that call only.
\<close>

subsection \<open>Values\<close>

type_synonym DWORD = "32 word"

text \<open>A C++ \<open>int\<close>: 32 bits, read as two's complement by \<open>sint\<close>.\<close>

type_synonym c_int = "32 word"

text \<open>A \<open>HANDLE\<close> is an address; only the comparison with \<open>NULL\<close> matters.\<close>

type_synonym HANDLE = nat

definition NULL :: HANDLE where
  "NULL = 0"

text \<open>The script values the binding builds: booleans, numbers (from \<open>int\<close>) and strings.\<close>

datatype js_value = JS_Boolean bool | JS_Number int | JS_String string

text \<open>A \<open>Napi::Object\<close> is a key/value record; \<open>Set\<close> stores one key.\<close>

type_synonym js_object = "string \<rightharpoonup> js_value"

definition obj_Set :: "string \<Rightarrow> js_value \<Rightarrow> js_object \<Rightarrow> js_object" where
  "obj_Set k x obj = obj(k \<mapsto> x)"

text \<open>
  A \<open>Napi::Array\<close> is a script array, which may have holes: storing at an index beyond
  the end extends the array, and the positions in between stay empty.
\<close>

type_synonym js_array = "js_object option list"

definition array_Set :: "nat \<Rightarrow> js_object \<Rightarrow> js_array \<Rightarrow> js_array" where
  "array_Set i x arr =
     (if i < length arr then arr[i := Some x]
      else arr @ replicate (i - length arr) None @ [Some x])"


subsection \<open>The vendor SDK\<close>

text \<open>The fields of \<open>SS_DEVICE_INFO\<close> and \<open>SS_SCAN_PARAM\<close> that the binding touches.\<close>

record SS_DEVICE_INFO =
  szModelName :: string
  szSerialNumber :: string

record SS_SCAN_PARAM =
  dwResolution :: DWORD
  dwPixelType :: DWORD
  dwDuplex :: DWORD
  dwPaperSize :: DWORD

text \<open>\<open>SS_IMAGE_DATA\<close> is never read by the binding: it is the bytes of the struct.\<close>

type_synonym SS_IMAGE_DATA = "8 word list"

text \<open>
  The header and the driver. Each function takes the driver state and returns the new
  one; an out parameter is a component of the result. \<open>PfuSsOpenDevice\<close> is handed the
  address of \<open>g_hScanner\<close>, so it receives the handle stored there and returns the one
  stored afterwards. \<open>PfuSsGetDeviceInfo\<close> always receives a zeroed struct, and
  \<open>PfuSsGetDeviceCount\<close> a zero count.
\<close>

record 'v sdk =
  SS_SUCCESS :: DWORD
  SS_PIXELTYPE_COLOR :: DWORD
  SS_PIXELTYPE_GRAY :: DWORD
  SS_PIXELTYPE_BW :: DWORD
  SS_DUPLEX_ON :: DWORD
  SS_DUPLEX_OFF :: DWORD
  SS_PAPERSIZE_A4 :: DWORD
  sizeof_SS_IMAGE_DATA :: nat
  PfuSsInitialize :: "'v \<Rightarrow> DWORD \<times> 'v"
  PfuSsUninitialize :: "'v \<Rightarrow> 'v"
  PfuSsGetDeviceCount :: "'v \<Rightarrow> DWORD \<times> DWORD \<times> 'v"
  PfuSsGetDeviceInfo :: "DWORD \<Rightarrow> 'v \<Rightarrow> DWORD \<times> SS_DEVICE_INFO \<times> 'v"
  PfuSsOpenDevice :: "c_int \<Rightarrow> HANDLE \<Rightarrow> 'v \<Rightarrow> DWORD \<times> HANDLE \<times> 'v"
  PfuSsSetScanParam :: "HANDLE \<Rightarrow> SS_SCAN_PARAM \<Rightarrow> 'v \<Rightarrow> DWORD \<times> 'v"
  PfuSsStartScan :: "HANDLE \<Rightarrow> 'v \<Rightarrow> DWORD \<times> 'v"
  PfuSsGetImageData :: "HANDLE \<Rightarrow> SS_IMAGE_DATA \<Rightarrow> 'v \<Rightarrow> DWORD \<times> SS_IMAGE_DATA \<times> 'v"
  PfuSsFreeImageData :: "SS_IMAGE_DATA \<Rightarrow> 'v \<Rightarrow> SS_IMAGE_DATA \<times> 'v"
  PfuSsCloseDevice :: "HANDLE \<Rightarrow> 'v \<Rightarrow> 'v"

text \<open>The log of the calls made into the driver.\<close>

datatype sdk_call =
  Call_Initialize DWORD
| Call_Uninitialize
| Call_GetDeviceCount DWORD DWORD
| Call_GetDeviceInfo DWORD DWORD
| Call_OpenDevice c_int DWORD HANDLE
| Call_SetScanParam HANDLE SS_SCAN_PARAM DWORD
| Call_StartScan HANDLE DWORD
| Call_GetImageData HANDLE DWORD
| Call_FreeImageData
| Call_CloseDevice HANDLE

subsection \<open>The state\<close>

record 'v world =
  g_hScanner :: HANDLE
  g_bInitialized :: bool
  driver :: 'v
  calls :: "sdk_call list"

definition called :: "sdk_call \<Rightarrow> 'v \<Rightarrow> 'v world \<Rightarrow> 'v world" where
  "called c v w = w\<lparr>driver := v, calls := calls w @ [c]\<rparr>"

subsection \<open>Initialize\<close>

definition Initialize :: "'v sdk \<Rightarrow> 'v world \<Rightarrow> js_object \<times> 'v world" where
  "Initialize sdk w =
     (if g_bInitialized w then
        (obj_Set ''message'' (JS_String ''Already initialized'')
           (obj_Set ''success'' (JS_Boolean True) Map.empty), w)
      else
        (case PfuSsInitialize sdk (driver w) of (dwRet, v) \<Rightarrow>
           let w1 = called (Call_Initialize dwRet) v w in
           if dwRet \<noteq> SS_SUCCESS sdk then
             (obj_Set ''errorCode'' (JS_Number (sint dwRet))
                (obj_Set ''error'' (JS_String ''Failed to initialize Ricoh SDK'')
                   (obj_Set ''success'' (JS_Boolean False) Map.empty)), w1)
           else
             (obj_Set ''message'' (JS_String ''Ricoh SDK initialized successfully'')
                (obj_Set ''success'' (JS_Boolean True) Map.empty),
              w1\<lparr>g_bInitialized := True\<rparr>)))"

subsection \<open>GetScanners\<close>

definition scanner_record :: "DWORD \<Rightarrow> SS_DEVICE_INFO \<Rightarrow> js_object" where
  "scanner_record i deviceInfo =
     obj_Set ''serialNumber'' (JS_String (szSerialNumber deviceInfo))
       (obj_Set ''vendor'' (JS_String ''Ricoh/Fujitsu'')
          (obj_Set ''name'' (JS_String (szModelName deviceInfo))
             (obj_Set ''id'' (JS_Number (sint i)) Map.empty)))"

text \<open>The loop \<open>for (DWORD i = 0; i < dwScannerCount; i++)\<close>, from index \<open>i\<close> on.\<close>

function enumerate :: "'v sdk \<Rightarrow> DWORD \<Rightarrow> DWORD \<Rightarrow> js_array \<Rightarrow> 'v world \<Rightarrow> js_array \<times> 'v world" where
  "enumerate sdk dwScannerCount i scanners w =
     (if i < dwScannerCount then
        (case PfuSsGetDeviceInfo sdk i (driver w) of (dwRet, deviceInfo, v) \<Rightarrow>
           enumerate sdk dwScannerCount (i + 1)
             (if dwRet = SS_SUCCESS sdk
              then array_Set (unat i) (scanner_record i deviceInfo) scanners
              else scanners)
             (called (Call_GetDeviceInfo i dwRet) v w))
      else (scanners, w))"
  by pat_completeness auto
termination
proof (relation "measure (\<lambda>(sdk, n, i, scanners, w). unat n - unat i)")
  show "wf (measure (\<lambda>(sdk :: 'v sdk, n :: DWORD, i :: DWORD, scanners :: js_array, w :: 'v world).
          unat n - unat i))"
    by simp
next
  fix sdk :: "'v sdk" and n i :: DWORD and scanners :: js_array and w :: "'v world"
    and x :: "DWORD \<times> SS_DEVICE_INFO \<times> 'v" and dwRet :: DWORD
    and y :: "SS_DEVICE_INFO \<times> 'v" and deviceInfo :: SS_DEVICE_INFO and v :: 'v
  assume lt: "i < n"
  have below: "unat i < unat n"
    using lt by (simp add: word_less_nat_alt)
  have bound: "unat n < 2 ^ LENGTH(32)"
    by (rule unsigned_less)
  from below bound have "unat i + unat (1 :: DWORD) < 2 ^ LENGTH(32)"
    by (simp only: unat_1)
  then have "unat (i + 1) = unat i + unat (1 :: DWORD)"
    by (simp only: unat_add_lem)
  then have "unat (i + 1) = Suc (unat i)"
    by simp
  with below
  show "((sdk, n, i + 1,
       if dwRet = SS_SUCCESS sdk then array_Set (unat i) (scanner_record i deviceInfo) scanners
       else scanners,
       called (Call_GetDeviceInfo i dwRet) v w), sdk, n, i, scanners, w)
      \<in> measure (\<lambda>(sdk, n, i, scanners, w). unat n - unat i)"
    by simp
qed

declare enumerate.simps [simp del]

definition GetScanners :: "'v sdk \<Rightarrow> 'v world \<Rightarrow> js_array \<times> 'v world" where
  "GetScanners sdk w =
     (if \<not> g_bInitialized w then ([], w)
      else
        (case PfuSsGetDeviceCount sdk (driver w) of (dwRet, dwScannerCount, v) \<Rightarrow>
           let w1 = called (Call_GetDeviceCount dwRet dwScannerCount) v w in
           if dwRet \<noteq> SS_SUCCESS sdk \<or> dwScannerCount = 0 then ([], w1)
           else enumerate sdk dwScannerCount 0 [] w1))"

subsection \<open>Scan\<close>

text \<open>
  The options of a scan, as lines 102 to 106 read them from the script object: two
  numbers through \<open>Int32Value\<close>, two strings through \<open>Utf8Value\<close> and a boolean.
  The record is what these conversions yield; a script object on which one of them
  fails (a field missing, or of another type) is not an input of the model.
\<close>

record scan_options =
  scannerId :: c_int
  resolution :: c_int
  colorMode :: string
  duplex :: bool
  outputPath :: string

text \<open>Lines 119 to 137: the zeroed \<open>SS_SCAN_PARAM\<close> and the four fields stored in it.\<close>

definition scan_param :: "'v sdk \<Rightarrow> scan_options \<Rightarrow> SS_SCAN_PARAM" where
  "scan_param sdk options =
     \<lparr>dwResolution = resolution options,
      dwPixelType =
        (if colorMode options = ''color'' then SS_PIXELTYPE_COLOR sdk
         else if colorMode options = ''grayscale'' then SS_PIXELTYPE_GRAY sdk
         else SS_PIXELTYPE_BW sdk),
      dwDuplex = (if duplex options then SS_DUPLEX_ON sdk else SS_DUPLEX_OFF sdk),
      dwPaperSize = SS_PAPERSIZE_A4 sdk\<rparr>"

definition close_device :: "'v sdk \<Rightarrow> 'v world \<Rightarrow> 'v world" where
  "close_device sdk w =
     called (Call_CloseDevice (g_hScanner w)) (PfuSsCloseDevice sdk (g_hScanner w) (driver w)) w"

text \<open>
  The loop \<open>while (PfuSsGetImageData(g_hScanner, &imageData) == SS_SUCCESS)\<close>. It ends
  only when the driver reports a code other than \<open>SS_SUCCESS\<close>, so it is a partial
  function: \<open>None\<close> is the loop that never ends. \<open>pageCount++\<close> is on 32 bits: the
  model wraps around where C++ leaves the overflow of an \<open>int\<close> undefined.
\<close>

partial_function (option) pull_pages ::
  "'v sdk \<Rightarrow> c_int \<Rightarrow> SS_IMAGE_DATA \<Rightarrow> 'v world \<Rightarrow> (c_int \<times> 'v world) option" where
  "pull_pages sdk pageCount imageData w =
     (case PfuSsGetImageData sdk (g_hScanner w) imageData (driver w) of (dwRet, imageData1, v1) \<Rightarrow>
        if dwRet = SS_SUCCESS sdk then
          (case PfuSsFreeImageData sdk imageData1 v1 of (imageData2, v2) \<Rightarrow>
             pull_pages sdk (pageCount + 1) imageData2
               (called Call_FreeImageData v2
                  (called (Call_GetImageData (g_hScanner w) dwRet) v1 w)))
        else Some (pageCount, called (Call_GetImageData (g_hScanner w) dwRet) v1 w))"

declare pull_pages.simps [code]

definition scan_failed :: "string \<Rightarrow> DWORD \<Rightarrow> js_object" where
  "scan_failed msg dwRet =
     obj_Set ''errorCode'' (JS_Number (sint dwRet))
       (obj_Set ''error'' (JS_String msg)
          (obj_Set ''success'' (JS_Boolean False) Map.empty))"

definition Scan :: "'v sdk \<Rightarrow> scan_options \<Rightarrow> 'v world \<Rightarrow> (js_object \<times> 'v world) option" where
  "Scan sdk options w =
     (if \<not> g_bInitialized w then
        Some (obj_Set ''error'' (JS_String ''SDK not initialized'')
                (obj_Set ''success'' (JS_Boolean False) Map.empty), w)
      else
        (case PfuSsOpenDevice sdk (scannerId options) (g_hScanner w) (driver w) of
           (dwRet, h, v) \<Rightarrow>
             let w1 = (called (Call_OpenDevice (scannerId options) dwRet h) v w)
                        \<lparr>g_hScanner := h\<rparr> in
             if dwRet \<noteq> SS_SUCCESS sdk then
               Some (scan_failed ''Failed to open scanner'' dwRet, w1)
             else
               (case PfuSsSetScanParam sdk (g_hScanner w1) (scan_param sdk options) (driver w1) of
                  (dwRet, v) \<Rightarrow>
                    let w2 = called (Call_SetScanParam (g_hScanner w1)
                                       (scan_param sdk options) dwRet) v w1 in
                    if dwRet \<noteq> SS_SUCCESS sdk then
                      Some (scan_failed ''Failed to set scan parameters'' dwRet,
                            close_device sdk w2)
                    else
                      (case PfuSsStartScan sdk (g_hScanner w2) (driver w2) of
                         (dwRet, v) \<Rightarrow>
                           let w3 = called (Call_StartScan (g_hScanner w2) dwRet) v w2 in
                           if dwRet \<noteq> SS_SUCCESS sdk then
                             Some (scan_failed ''Failed to start scan'' dwRet,
                                   close_device sdk w3)
                           else
                             (case pull_pages sdk 0
                                     (replicate (sizeof_SS_IMAGE_DATA sdk) 0) w3 of
                                None \<Rightarrow> None
                              | Some (pageCount, w4) \<Rightarrow>
                                  Some (obj_Set ''outputPath'' (JS_String (outputPath options))
                                          (obj_Set ''pageCount'' (JS_Number (sint pageCount))
                                             (obj_Set ''success'' (JS_Boolean True) Map.empty)),
                                        (close_device sdk w4)\<lparr>g_hScanner := NULL\<rparr>))))))"

subsection \<open>Cleanup\<close>

definition Cleanup :: "'v sdk \<Rightarrow> 'v world \<Rightarrow> 'v world" where
  "Cleanup sdk w =
     (let w1 = (if g_hScanner w \<noteq> NULL
                then (close_device sdk w)\<lparr>g_hScanner := NULL\<rparr>
                else w)
      in if g_bInitialized w1
         then (called Call_Uninitialize (PfuSsUninitialize sdk (driver w1)) w1)
                \<lparr>g_bInitialized := False\<rparr>
         else w1)"

subsection \<open>The driver seen from outside\<close>


text \<open>
  The image buffer and the driver state after \<open>k\<close> rounds of \<open>PfuSsGetImageData\<close> and
  \<open>PfuSsFreeImageData\<close> on handle \<open>h\<close>, the code that the next pull returns there, and
  the driver state it leaves.
\<close>

fun pull_from :: "'v sdk \<Rightarrow> HANDLE \<Rightarrow> nat \<Rightarrow> SS_IMAGE_DATA \<times> 'v \<Rightarrow> SS_IMAGE_DATA \<times> 'v" where
  "pull_from sdk h 0 s = s"
| "pull_from sdk h (Suc k) s =
     (case PfuSsGetImageData sdk h (fst s) (snd s) of (dwRet, imageData1, v1) \<Rightarrow>
        pull_from sdk h k (PfuSsFreeImageData sdk imageData1 v1))"

definition pull_code :: "'v sdk \<Rightarrow> HANDLE \<Rightarrow> SS_IMAGE_DATA \<times> 'v \<Rightarrow> DWORD" where
  "pull_code sdk h s = fst (PfuSsGetImageData sdk h (fst s) (snd s))"

definition pull_driver :: "'v sdk \<Rightarrow> HANDLE \<Rightarrow> SS_IMAGE_DATA \<times> 'v \<Rightarrow> 'v" where
  "pull_driver sdk h s = snd (snd (PfuSsGetImageData sdk h (fst s) (snd s)))"


subsection \<open>A simulated driver\<close>

text \<open>
  A driver to run the binding on. Its state holds the return codes of the coming calls
  to initialize, count, open, configure and start (success once the list is used up),
  the number of attached devices, the indices whose information query fails, and the
  pages in the feeder: a pull succeeds while a page is left.
\<close>

record sim =
  codes :: "DWORD list"
  devices :: DWORD
  offline :: "DWORD list"
  pages :: nat

definition next_code :: "sim \<Rightarrow> DWORD \<times> sim" where
  "next_code s = (case codes s of [] \<Rightarrow> (0, s) | r # rs \<Rightarrow> (r, s\<lparr>codes := rs\<rparr>))"

definition sim_sdk :: "sim sdk" where
  "sim_sdk =
     \<lparr>SS_SUCCESS = 0,
      SS_PIXELTYPE_COLOR = 2,
      SS_PIXELTYPE_GRAY = 1,
      SS_PIXELTYPE_BW = 0,
      SS_DUPLEX_ON = 1,
      SS_DUPLEX_OFF = 0,
      SS_PAPERSIZE_A4 = 4,
      sizeof_SS_IMAGE_DATA = 2,
      PfuSsInitialize = next_code,
      PfuSsUninitialize = (\<lambda>s. s),
      PfuSsGetDeviceCount =
        (\<lambda>s. case next_code s of (r, s') \<Rightarrow> (r, if r = 0 then devices s else 0, s')),
      PfuSsGetDeviceInfo =
        (\<lambda>i s. if i \<in> set (offline s)
               then (1, \<lparr>szModelName = [], szSerialNumber = []\<rparr>, s)
               else (0, \<lparr>szModelName = ''fi-7160'', szSerialNumber = ''A1B2''\<rparr>, s)),
      PfuSsOpenDevice =
        (\<lambda>n h s. case next_code s of (r, s') \<Rightarrow> (r, if r = 0 then 7 else h, s')),
      PfuSsSetScanParam = (\<lambda>h p s. next_code s),
      PfuSsStartScan = (\<lambda>h s. next_code s),
      PfuSsGetImageData =
        (\<lambda>h img s. if pages s = 0 then (1, img, s) else (0, img, s\<lparr>pages := pages s - 1\<rparr>)),
      PfuSsFreeImageData = (\<lambda>img s. (img, s)),
      PfuSsCloseDevice = (\<lambda>h s. s)\<rparr>"

definition desk :: sim where
  "desk = \<lparr>codes = [], devices = 2, offline = [], pages = 3\<rparr>"

definition fresh :: "sim \<Rightarrow> sim world" where
  "fresh s = \<lparr>g_hScanner = NULL, g_bInitialized = False, driver = s, calls = []\<rparr>"

definition ready :: "sim \<Rightarrow> sim world" where
  "ready s = \<lparr>g_hScanner = NULL, g_bInitialized = True, driver = s, calls = []\<rparr>"

definition job :: scan_options where
  "job = \<lparr>scannerId = 0, resolution = 300, colorMode = ''color'', duplex = True,
          outputPath = ''out.pdf''\<rparr>"

section \<open>Properties\<close>

subsection \<open>The 32-bit numbers, the array and the two loops\<close>






text \<open>
  The page loop returns when the driver, after \<open>n\<close> successful pulls, reports another
  code: the counter has gone up by \<open>n\<close> (on 32 bits), and the log has grown by \<open>n\<close> pairs
  of pull and free and the last, failed pull.
\<close>

lemma pull_pages_returns:
  assumes "\<forall>k<n. pull_code sdk (g_hScanner w) (pull_from sdk (g_hScanner w) k (img, driver w))
             = SS_SUCCESS sdk"
    and "pull_code sdk (g_hScanner w) (pull_from sdk (g_hScanner w) n (img, driver w))
           \<noteq> SS_SUCCESS sdk"
  shows "pull_pages sdk pc img w =
     Some (pc + of_nat n,
           w\<lparr>driver := pull_driver sdk (g_hScanner w)
                         (pull_from sdk (g_hScanner w) n (img, driver w)),
             calls := calls w
               @ concat (replicate n
                   [Call_GetImageData (g_hScanner w) (SS_SUCCESS sdk), Call_FreeImageData])
               @ [Call_GetImageData (g_hScanner w)
                    (pull_code sdk (g_hScanner w)
                       (pull_from sdk (g_hScanner w) n (img, driver w)))]\<rparr>)"
  using assms
proof (induction n arbitrary: pc img w)
  case 0
  obtain r img1 v1 where q: "PfuSsGetImageData sdk (g_hScanner w) img (driver w) = (r, img1, v1)"
    by (cases "PfuSsGetImageData sdk (g_hScanner w) img (driver w)") auto
  with "0.prems" show ?case
    by (subst pull_pages.simps) (simp add: pull_code_def pull_driver_def called_def)
next
  case (Suc n)
  obtain r img1 v1 where q: "PfuSsGetImageData sdk (g_hScanner w) img (driver w) = (r, img1, v1)"
    by (cases "PfuSsGetImageData sdk (g_hScanner w) img (driver w)") auto
  obtain img2 v2 where f: "PfuSsFreeImageData sdk img1 v1 = (img2, v2)"
    by (cases "PfuSsFreeImageData sdk img1 v1") auto
  from Suc.prems(1)
  have "pull_code sdk (g_hScanner w) (pull_from sdk (g_hScanner w) 0 (img, driver w))
          = SS_SUCCESS sdk"
    by blast
  with q have r: "r = SS_SUCCESS sdk" by (simp add: pull_code_def)
  define w' where
    "w' = called Call_FreeImageData v2 (called (Call_GetImageData (g_hScanner w) r) v1 w)"
  have h: "g_hScanner w' = g_hScanner w" and d: "driver w' = v2"
    and c: "calls w' = calls w
              @ [Call_GetImageData (g_hScanner w) (SS_SUCCESS sdk), Call_FreeImageData]"
    by (simp_all add: w'_def called_def r)
  have shift: "pull_from sdk (g_hScanner w) (Suc k) (img, driver w)
                 = pull_from sdk (g_hScanner w) k (img2, v2)" for k
    by (simp add: q f)
  have step: "pull_pages sdk pc img w = pull_pages sdk (pc + 1) img2 w'"
    by (subst pull_pages.simps) (simp add: q f r w'_def)
  have p1: "\<forall>k<n. pull_code sdk (g_hScanner w')
                     (pull_from sdk (g_hScanner w') k (img2, driver w')) = SS_SUCCESS sdk"
  proof (intro allI impI)
    fix k assume "k < n"
    then have "Suc k < Suc n" by simp
    with Suc.prems(1)
    have "pull_code sdk (g_hScanner w) (pull_from sdk (g_hScanner w) (Suc k) (img, driver w))
            = SS_SUCCESS sdk"
      by blast
    then show "pull_code sdk (g_hScanner w')
                 (pull_from sdk (g_hScanner w') k (img2, driver w')) = SS_SUCCESS sdk"
      by (simp only: shift h d)
  qed
  have p2: "pull_code sdk (g_hScanner w') (pull_from sdk (g_hScanner w') n (img2, driver w'))
              \<noteq> SS_SUCCESS sdk"
    using Suc.prems(2) unfolding shift h d .
  have "pull_pages sdk (pc + 1) img2 w' = Some (pc + 1 + of_nat n,
           w'\<lparr>driver := pull_driver sdk (g_hScanner w')
                          (pull_from sdk (g_hScanner w') n (img2, driver w')),
             calls := calls w'
               @ concat (replicate n
                   [Call_GetImageData (g_hScanner w') (SS_SUCCESS sdk), Call_FreeImageData])
               @ [Call_GetImageData (g_hScanner w')
                    (pull_code sdk (g_hScanner w')
                       (pull_from sdk (g_hScanner w') n (img2, driver w')))]\<rparr>)"
    by (rule Suc.IH [OF p1 p2])
  then show ?case
    unfolding step by (simp add: h d c q f r w'_def called_def ac_simps)
qed





subsection \<open>Scan, path by path\<close>

lemma Scan_open_failed:
  assumes "g_bInitialized w"
    and "PfuSsOpenDevice sdk (scannerId options) (g_hScanner w) (driver w) = (r1, h, v1)"
    and "r1 \<noteq> SS_SUCCESS sdk"
  shows "Scan sdk options w =
     Some (scan_failed ''Failed to open scanner'' r1,
           w\<lparr>g_hScanner := h, driver := v1,
             calls := calls w @ [Call_OpenDevice (scannerId options) r1 h]\<rparr>)"
  using assms by (simp add: Scan_def called_def)

lemma Scan_configure_failed:
  assumes "g_bInitialized w"
    and "PfuSsOpenDevice sdk (scannerId options) (g_hScanner w) (driver w) = (SS_SUCCESS sdk, h, v1)"
    and "PfuSsSetScanParam sdk h (scan_param sdk options) v1 = (r2, v2)"
    and "r2 \<noteq> SS_SUCCESS sdk"
  shows "Scan sdk options w =
     Some (scan_failed ''Failed to set scan parameters'' r2,
           w\<lparr>g_hScanner := h, driver := PfuSsCloseDevice sdk h v2,
             calls := calls w @ [Call_OpenDevice (scannerId options) (SS_SUCCESS sdk) h,
                                 Call_SetScanParam h (scan_param sdk options) r2,
                                 Call_CloseDevice h]\<rparr>)"
  using assms by (simp add: Scan_def called_def close_device_def)

lemma Scan_start_failed:
  assumes "g_bInitialized w"
    and "PfuSsOpenDevice sdk (scannerId options) (g_hScanner w) (driver w) = (SS_SUCCESS sdk, h, v1)"
    and "PfuSsSetScanParam sdk h (scan_param sdk options) v1 = (SS_SUCCESS sdk, v2)"
    and "PfuSsStartScan sdk h v2 = (r3, v3)"
    and "r3 \<noteq> SS_SUCCESS sdk"
  shows "Scan sdk options w =
     Some (scan_failed ''Failed to start scan'' r3,
           w\<lparr>g_hScanner := h, driver := PfuSsCloseDevice sdk h v3,
             calls := calls w @ [Call_OpenDevice (scannerId options) (SS_SUCCESS sdk) h,
                                 Call_SetScanParam h (scan_param sdk options) (SS_SUCCESS sdk),
                                 Call_StartScan h r3,
                                 Call_CloseDevice h]\<rparr>)"
  using assms by (simp add: Scan_def called_def close_device_def)

lemma Scan_started:
  assumes "g_bInitialized w"
    and "PfuSsOpenDevice sdk (scannerId options) (g_hScanner w) (driver w) = (SS_SUCCESS sdk, h, v1)"
    and "PfuSsSetScanParam sdk h (scan_param sdk options) v1 = (SS_SUCCESS sdk, v2)"
    and "PfuSsStartScan sdk h v2 = (SS_SUCCESS sdk, v3)"
  shows "Scan sdk options w =
     (case pull_pages sdk 0 (replicate (sizeof_SS_IMAGE_DATA sdk) 0)
             (w\<lparr>g_hScanner := h, driver := v3,
                calls := calls w @ [Call_OpenDevice (scannerId options) (SS_SUCCESS sdk) h,
                                    Call_SetScanParam h (scan_param sdk options) (SS_SUCCESS sdk),
                                    Call_StartScan h (SS_SUCCESS sdk)]\<rparr>) of
        None \<Rightarrow> None
      | Some (pageCount, w4) \<Rightarrow>
          Some ([''success'' \<mapsto> JS_Boolean True,
                 ''pageCount'' \<mapsto> JS_Number (sint pageCount),
                 ''outputPath'' \<mapsto> JS_String (outputPath options)],
                w4\<lparr>g_hScanner := NULL, driver := PfuSsCloseDevice sdk (g_hScanner w4) (driver w4),
                   calls := calls w4 @ [Call_CloseDevice (g_hScanner w4)]\<rparr>))"
  using assms by (simp add: Scan_def called_def close_device_def obj_Set_def split: option.splits)




lemma Scan_pages:
  assumes "g_bInitialized w"
    and "PfuSsOpenDevice sdk (scannerId options) (g_hScanner w) (driver w) = (SS_SUCCESS sdk, h, v1)"
    and "PfuSsSetScanParam sdk h (scan_param sdk options) v1 = (SS_SUCCESS sdk, v2)"
    and "PfuSsStartScan sdk h v2 = (SS_SUCCESS sdk, v3)"
    and "\<forall>k<n. pull_code sdk h
             (pull_from sdk h k (replicate (sizeof_SS_IMAGE_DATA sdk) 0, v3)) = SS_SUCCESS sdk"
    and "pull_code sdk h (pull_from sdk h n (replicate (sizeof_SS_IMAGE_DATA sdk) 0, v3))
           \<noteq> SS_SUCCESS sdk"
  shows "Scan sdk options w =
     Some ([''success'' \<mapsto> JS_Boolean True,
            ''pageCount'' \<mapsto> JS_Number (sint (of_nat n :: c_int)),
            ''outputPath'' \<mapsto> JS_String (outputPath options)],
           w\<lparr>g_hScanner := NULL,
             driver := PfuSsCloseDevice sdk h
               (pull_driver sdk h (pull_from sdk h n (replicate (sizeof_SS_IMAGE_DATA sdk) 0, v3))),
             calls := calls w
               @ [Call_OpenDevice (scannerId options) (SS_SUCCESS sdk) h,
                  Call_SetScanParam h (scan_param sdk options) (SS_SUCCESS sdk),
                  Call_StartScan h (SS_SUCCESS sdk)]
               @ concat (replicate n [Call_GetImageData h (SS_SUCCESS sdk), Call_FreeImageData])
               @ [Call_GetImageData h
                    (pull_code sdk h
                       (pull_from sdk h n (replicate (sizeof_SS_IMAGE_DATA sdk) 0, v3))),
                  Call_CloseDevice h]\<rparr>)"
proof -
  define w3 where "w3 = w\<lparr>g_hScanner := h, driver := v3,
                calls := calls w @ [Call_OpenDevice (scannerId options) (SS_SUCCESS sdk) h,
                                    Call_SetScanParam h (scan_param sdk options) (SS_SUCCESS sdk),
                                    Call_StartScan h (SS_SUCCESS sdk)]\<rparr>"
  have h: "g_hScanner w3 = h" and d: "driver w3 = v3"
    by (simp_all add: w3_def)
  have "pull_pages sdk 0 (replicate (sizeof_SS_IMAGE_DATA sdk) 0) w3 =
     Some (0 + of_nat n,
           w3\<lparr>driver := pull_driver sdk (g_hScanner w3)
                         (pull_from sdk (g_hScanner w3) n
                            (replicate (sizeof_SS_IMAGE_DATA sdk) 0, driver w3)),
             calls := calls w3
               @ concat (replicate n
                   [Call_GetImageData (g_hScanner w3) (SS_SUCCESS sdk), Call_FreeImageData])
               @ [Call_GetImageData (g_hScanner w3)
                    (pull_code sdk (g_hScanner w3)
                       (pull_from sdk (g_hScanner w3) n
                          (replicate (sizeof_SS_IMAGE_DATA sdk) 0, driver w3)))]\<rparr>)"
    by (rule pull_pages_returns) (use assms(5,6) in \<open>simp_all add: h d\<close>)
  then show ?thesis
    unfolding Scan_started [OF assms(1-4)] w3_def [symmetric]
    by (simp add: w3_def)
qed





subsection \<open>The simulated driver at work\<close>

lemma sim_consts:
  "SS_SUCCESS sim_sdk = 0" "sizeof_SS_IMAGE_DATA sim_sdk = 2"
  "SS_PIXELTYPE_COLOR sim_sdk = 2" "SS_PIXELTYPE_GRAY sim_sdk = 1" "SS_PIXELTYPE_BW sim_sdk = 0"
  "SS_DUPLEX_ON sim_sdk = 1" "SS_DUPLEX_OFF sim_sdk = 0" "SS_PAPERSIZE_A4 sim_sdk = 4"
  by (simp_all add: sim_sdk_def)

lemma sim_calls:
  "PfuSsInitialize sim_sdk s = next_code s"
  "PfuSsGetDeviceCount sim_sdk s =
     (case next_code s of (r, s') \<Rightarrow> (r, if r = 0 then devices s else 0, s'))"
  "PfuSsOpenDevice sim_sdk n h s =
     (case next_code s of (r, s') \<Rightarrow> (r, if r = 0 then 7 else h, s'))"
  "PfuSsSetScanParam sim_sdk h p s = next_code s"
  "PfuSsStartScan sim_sdk h s = next_code s"
  "PfuSsGetImageData sim_sdk h img s =
     (if pages s = 0 then (1, img, s) else (0, img, s\<lparr>pages := pages s - 1\<rparr>))"
  "PfuSsFreeImageData sim_sdk img s = (img, s)"
  "PfuSsCloseDevice sim_sdk h s = s"
  "PfuSsUninitialize sim_sdk s = s"
  by (simp_all add: sim_sdk_def)


lemma sim_pull_code: "pull_code sim_sdk h (img, s) = (if pages s = 0 then 1 else 0)"
  by (simp add: pull_code_def sim_calls)

lemma sim_pull_from:
  "k \<le> pages s \<Longrightarrow> pull_from sim_sdk h k (img, s) = (img, s\<lparr>pages := pages s - k\<rparr>)"
  by (induction k arbitrary: s) (simp_all add: sim_calls)

subsection \<open>Cleanup\<close>

text \<open>
  C7. Whatever the state it starts from, \<open>Cleanup\<close> ends with \<open>g_bInitialized\<close> false and
  \<open>g_hScanner\<close> \<open>NULL\<close>. A second \<open>Cleanup\<close> right after it changes nothing: globals,
  driver state and the log of driver calls stay as the first one left them, so it makes
  no call into the driver.
\<close>

theorem Cleanup_pristine_idempotent:
  "g_hScanner (Cleanup sdk w) = NULL
   \<and> g_bInitialized (Cleanup sdk w) = False
   \<and> Cleanup sdk (Cleanup sdk w) = Cleanup sdk w
   \<and> calls (Cleanup sdk (Cleanup sdk w)) = calls (Cleanup sdk w)"
  by (simp add: Cleanup_def Let_def close_device_def called_def)

theorem Cleanup_pristine_idempotent_witness:
  "g_hScanner (Cleanup sim_sdk ((ready desk)\<lparr>g_hScanner := 7\<rparr>)) = NULL
   \<and> g_bInitialized (Cleanup sim_sdk ((ready desk)\<lparr>g_hScanner := 7\<rparr>)) = False
   \<and> calls (Cleanup sim_sdk ((ready desk)\<lparr>g_hScanner := 7\<rparr>))
       = [Call_CloseDevice 7, Call_Uninitialize]
   \<and> calls (Cleanup sim_sdk (Cleanup sim_sdk ((ready desk)\<lparr>g_hScanner := 7\<rparr>)))
       = [Call_CloseDevice 7, Call_Uninitialize]"
  using Cleanup_pristine_idempotent [of sim_sdk "(ready desk)\<lparr>g_hScanner := 7\<rparr>"]
  by (simp add: Cleanup_def Let_def close_device_def called_def ready_def NULL_def)

subsection \<open>Initialize\<close>

text \<open>
  C8. When the SDK is already initialized, \<open>Initialize\<close> returns the record with
  \<open>success\<close> true and the message \<open>Already initialized\<close>, and the state it returns is the
  state it was given: the globals are unchanged and no call into the driver was made.
\<close>

theorem Initialize_idempotent:
  "g_bInitialized w \<Longrightarrow>
   Initialize sdk w =
     ([''success'' \<mapsto> JS_Boolean True, ''message'' \<mapsto> JS_String ''Already initialized''], w)"
  by (simp add: Initialize_def obj_Set_def)

theorem Initialize_idempotent_witness:
  "g_bInitialized (ready desk)
   \<and> Initialize sim_sdk (ready desk) =
       ([''success'' \<mapsto> JS_Boolean True, ''message'' \<mapsto> JS_String ''Already initialized''],
        ready desk)"
proof -
  have init: "g_bInitialized (ready desk)"
    by (simp add: ready_def)
  from init Initialize_idempotent [OF init, of sim_sdk] show ?thesis
    by simp
qed

subsection \<open>GetScanners\<close>

text \<open>
  C9. \<open>GetScanners\<close> has no error result: it returns an array and nothing else. When
  the SDK is not initialized it returns the empty array and the state it was given, so
  without any call into the driver. When the device-count query returns a code other
  than \<open>SS_SUCCESS\<close>, or reports zero devices, it returns the empty array as well, after
  that one query: the same value in all three cases.
\<close>

theorem GetScanners_never_fails:
  "(\<not> g_bInitialized w \<longrightarrow> GetScanners sdk w = ([], w))
   \<and> (g_bInitialized w \<longrightarrow> PfuSsGetDeviceCount sdk (driver w) = (dwRet, n, v) \<longrightarrow>
        dwRet \<noteq> SS_SUCCESS sdk \<or> n = 0 \<longrightarrow>
        GetScanners sdk w = ([], called (Call_GetDeviceCount dwRet n) v w))"
  by (simp add: GetScanners_def Let_def)

theorem GetScanners_never_fails_witness:
  "\<not> g_bInitialized (fresh desk)
   \<and> GetScanners sim_sdk (fresh desk) = ([], fresh desk)
   \<and> g_bInitialized (ready (desk\<lparr>codes := [9]\<rparr>))
   \<and> fst (GetScanners sim_sdk (ready (desk\<lparr>codes := [9]\<rparr>))) = []
   \<and> g_bInitialized (ready (desk\<lparr>devices := 0\<rparr>))
   \<and> fst (GetScanners sim_sdk (ready (desk\<lparr>devices := 0\<rparr>))) = []"
  using GetScanners_never_fails [of "fresh desk" sim_sdk]
    GetScanners_never_fails [of "ready (desk\<lparr>codes := [9]\<rparr>)" sim_sdk 9 0
      "desk\<lparr>codes := []\<rparr>"]
    GetScanners_never_fails [of "ready (desk\<lparr>devices := 0\<rparr>)" sim_sdk 0 0
      "desk\<lparr>devices := 0\<rparr>"]
  by (simp add: fresh_def ready_def desk_def sim_sdk_def next_code_def)




subsection \<open>Scan\<close>









text \<open>
  C2, as the code has it. A code other than \<open>SS_SUCCESS\<close> is forwarded in four places:
  from \<open>PfuSsInitialize\<close> in \<open>Initialize\<close>, and from \<open>PfuSsOpenDevice\<close>,
  \<open>PfuSsSetScanParam\<close> and \<open>PfuSsStartScan\<close> in \<open>Scan\<close>. There the operation returns a
  record with \<open>success\<close> false, a message, and \<open>errorCode\<close> equal to the code cast to
  \<open>int\<close>, and does nothing more with the driver than close the device it had opened.
  It is not forwarded from the other calls: \<open>GetScanners\<close> answers a failed device
  count with the empty array, and \<open>Scan\<close> takes the first failed pull for the end of the
  pages and returns \<open>success\<close> true with no \<open>errorCode\<close>.
\<close>

theorem failures_forwarded:
  "(\<not> g_bInitialized w \<longrightarrow> PfuSsInitialize sdk (driver w) = (r, v) \<longrightarrow> r \<noteq> SS_SUCCESS sdk \<longrightarrow>
      Initialize sdk w =
        ([''success'' \<mapsto> JS_Boolean False,
          ''error'' \<mapsto> JS_String ''Failed to initialize Ricoh SDK'',
          ''errorCode'' \<mapsto> JS_Number (sint r)],
         w\<lparr>driver := v, calls := calls w @ [Call_Initialize r]\<rparr>))
   \<and> (g_bInitialized w \<longrightarrow>
      PfuSsOpenDevice sdk (scannerId options) (g_hScanner w) (driver w) = (r1, h, v1) \<longrightarrow>
      r1 \<noteq> SS_SUCCESS sdk \<longrightarrow>
      Scan sdk options w =
        Some ([''success'' \<mapsto> JS_Boolean False,
               ''error'' \<mapsto> JS_String ''Failed to open scanner'',
               ''errorCode'' \<mapsto> JS_Number (sint r1)],
              w\<lparr>g_hScanner := h, driver := v1,
                calls := calls w @ [Call_OpenDevice (scannerId options) r1 h]\<rparr>))
   \<and> (g_bInitialized w \<longrightarrow>
      PfuSsOpenDevice sdk (scannerId options) (g_hScanner w) (driver w)
        = (SS_SUCCESS sdk, h, v1) \<longrightarrow>
      PfuSsSetScanParam sdk h (scan_param sdk options) v1 = (r2, v2) \<longrightarrow>
      r2 \<noteq> SS_SUCCESS sdk \<longrightarrow>
      Scan sdk options w =
        Some ([''success'' \<mapsto> JS_Boolean False,
               ''error'' \<mapsto> JS_String ''Failed to set scan parameters'',
               ''errorCode'' \<mapsto> JS_Number (sint r2)],
              w\<lparr>g_hScanner := h, driver := PfuSsCloseDevice sdk h v2,
                calls := calls w @ [Call_OpenDevice (scannerId options) (SS_SUCCESS sdk) h,
                                    Call_SetScanParam h (scan_param sdk options) r2,
                                    Call_CloseDevice h]\<rparr>))
   \<and> (g_bInitialized w \<longrightarrow>
      PfuSsOpenDevice sdk (scannerId options) (g_hScanner w) (driver w)
        = (SS_SUCCESS sdk, h, v1) \<longrightarrow>
      PfuSsSetScanParam sdk h (scan_param sdk options) v1 = (SS_SUCCESS sdk, v2) \<longrightarrow>
      PfuSsStartScan sdk h v2 = (r3, v3) \<longrightarrow>
      r3 \<noteq> SS_SUCCESS sdk \<longrightarrow>
      Scan sdk options w =
        Some ([''success'' \<mapsto> JS_Boolean False,
               ''error'' \<mapsto> JS_String ''Failed to start scan'',
               ''errorCode'' \<mapsto> JS_Number (sint r3)],
              w\<lparr>g_hScanner := h, driver := PfuSsCloseDevice sdk h v3,
                calls := calls w @ [Call_OpenDevice (scannerId options) (SS_SUCCESS sdk) h,
                                    Call_SetScanParam h (scan_param sdk options) (SS_SUCCESS sdk),
                                    Call_StartScan h r3,
                                    Call_CloseDevice h]\<rparr>))
   \<and> (g_bInitialized w \<longrightarrow> PfuSsGetDeviceCount sdk (driver w) = (r, n, v') \<longrightarrow>
      r \<noteq> SS_SUCCESS sdk \<longrightarrow>
      fst (GetScanners sdk w) = [])
   \<and> (g_bInitialized w \<longrightarrow>
      PfuSsOpenDevice sdk (scannerId options) (g_hScanner w) (driver w)
        = (SS_SUCCESS sdk, h, v1) \<longrightarrow>
      PfuSsSetScanParam sdk h (scan_param sdk options) v1 = (SS_SUCCESS sdk, v2) \<longrightarrow>
      PfuSsStartScan sdk h v2 = (SS_SUCCESS sdk, v3) \<longrightarrow>
      (\<forall>k<m. pull_code sdk h
         (pull_from sdk h k (replicate (sizeof_SS_IMAGE_DATA sdk) 0, v3)) = SS_SUCCESS sdk) \<longrightarrow>
      pull_code sdk h (pull_from sdk h m (replicate (sizeof_SS_IMAGE_DATA sdk) 0, v3))
        \<noteq> SS_SUCCESS sdk \<longrightarrow>
      map_option (\<lambda>x. (fst x ''success'', fst x ''errorCode'')) (Scan sdk options w) =
        Some (Some (JS_Boolean True), None))"
proof (intro conjI impI)
  assume "\<not> g_bInitialized w" "PfuSsInitialize sdk (driver w) = (r, v)" "r \<noteq> SS_SUCCESS sdk"
  then show "Initialize sdk w =
        ([''success'' \<mapsto> JS_Boolean False,
          ''error'' \<mapsto> JS_String ''Failed to initialize Ricoh SDK'',
          ''errorCode'' \<mapsto> JS_Number (sint r)],
         w\<lparr>driver := v, calls := calls w @ [Call_Initialize r]\<rparr>)"
    by (simp add: Initialize_def obj_Set_def called_def)
next
  assume "g_bInitialized w"
    "PfuSsOpenDevice sdk (scannerId options) (g_hScanner w) (driver w) = (r1, h, v1)"
    "r1 \<noteq> SS_SUCCESS sdk"
  then show "Scan sdk options w =
        Some ([''success'' \<mapsto> JS_Boolean False,
               ''error'' \<mapsto> JS_String ''Failed to open scanner'',
               ''errorCode'' \<mapsto> JS_Number (sint r1)],
              w\<lparr>g_hScanner := h, driver := v1,
                calls := calls w @ [Call_OpenDevice (scannerId options) r1 h]\<rparr>)"
    by (simp add: Scan_open_failed scan_failed_def obj_Set_def)
next
  assume "g_bInitialized w"
    "PfuSsOpenDevice sdk (scannerId options) (g_hScanner w) (driver w) = (SS_SUCCESS sdk, h, v1)"
    "PfuSsSetScanParam sdk h (scan_param sdk options) v1 = (r2, v2)"
    "r2 \<noteq> SS_SUCCESS sdk"
  then show "Scan sdk options w =
        Some ([''success'' \<mapsto> JS_Boolean False,
               ''error'' \<mapsto> JS_String ''Failed to set scan parameters'',
               ''errorCode'' \<mapsto> JS_Number (sint r2)],
              w\<lparr>g_hScanner := h, driver := PfuSsCloseDevice sdk h v2,
                calls := calls w @ [Call_OpenDevice (scannerId options) (SS_SUCCESS sdk) h,
                                    Call_SetScanParam h (scan_param sdk options) r2,
                                    Call_CloseDevice h]\<rparr>)"
    by (simp add: Scan_configure_failed scan_failed_def obj_Set_def)
next
  assume "g_bInitialized w"
    "PfuSsOpenDevice sdk (scannerId options) (g_hScanner w) (driver w) = (SS_SUCCESS sdk, h, v1)"
    "PfuSsSetScanParam sdk h (scan_param sdk options) v1 = (SS_SUCCESS sdk, v2)"
    "PfuSsStartScan sdk h v2 = (r3, v3)"
    "r3 \<noteq> SS_SUCCESS sdk"
  then show "Scan sdk options w =
        Some ([''success'' \<mapsto> JS_Boolean False,
               ''error'' \<mapsto> JS_String ''Failed to start scan'',
               ''errorCode'' \<mapsto> JS_Number (sint r3)],
              w\<lparr>g_hScanner := h, driver := PfuSsCloseDevice sdk h v3,
                calls := calls w @ [Call_OpenDevice (scannerId options) (SS_SUCCESS sdk) h,
                                    Call_SetScanParam h (scan_param sdk options) (SS_SUCCESS sdk),
                                    Call_StartScan h r3,
                                    Call_CloseDevice h]\<rparr>)"
    by (simp add: Scan_start_failed scan_failed_def obj_Set_def)
next
  assume "g_bInitialized w" "PfuSsGetDeviceCount sdk (driver w) = (r, n, v')"
    "r \<noteq> SS_SUCCESS sdk"
  then show "fst (GetScanners sdk w) = []"
    by (simp add: GetScanners_def)
next
  assume a: "g_bInitialized w"
    "PfuSsOpenDevice sdk (scannerId options) (g_hScanner w) (driver w) = (SS_SUCCESS sdk, h, v1)"
    "PfuSsSetScanParam sdk h (scan_param sdk options) v1 = (SS_SUCCESS sdk, v2)"
    "PfuSsStartScan sdk h v2 = (SS_SUCCESS sdk, v3)"
    and ok: "\<forall>k<m. pull_code sdk h
         (pull_from sdk h k (replicate (sizeof_SS_IMAGE_DATA sdk) 0, v3)) = SS_SUCCESS sdk"
    and stop: "pull_code sdk h (pull_from sdk h m (replicate (sizeof_SS_IMAGE_DATA sdk) 0, v3))
        \<noteq> SS_SUCCESS sdk"
  show "map_option (\<lambda>x. (fst x ''success'', fst x ''errorCode'')) (Scan sdk options w) =
        Some (Some (JS_Boolean True), None)"
    by (simp add: Scan_pages [OF a ok stop])
qed


theorem failures_forwarded_witness:
  "Initialize sim_sdk (fresh (desk\<lparr>codes := [5]\<rparr>)) =
     ([''success'' \<mapsto> JS_Boolean False,
       ''error'' \<mapsto> JS_String ''Failed to initialize Ricoh SDK'',
       ''errorCode'' \<mapsto> JS_Number 5],
      (fresh (desk\<lparr>codes := []\<rparr>))\<lparr>calls := [Call_Initialize 5]\<rparr>)
   \<and> map_option fst (Scan sim_sdk job (ready (desk\<lparr>codes := [6]\<rparr>))) =
       Some [''success'' \<mapsto> JS_Boolean False,
             ''error'' \<mapsto> JS_String ''Failed to open scanner'',
             ''errorCode'' \<mapsto> JS_Number 6]
   \<and> map_option fst (Scan sim_sdk job (ready (desk\<lparr>codes := [0, 4294967295]\<rparr>))) =
       Some [''success'' \<mapsto> JS_Boolean False,
             ''error'' \<mapsto> JS_String ''Failed to set scan parameters'',
             ''errorCode'' \<mapsto> JS_Number (- 1)]
   \<and> map_option fst (Scan sim_sdk job (ready (desk\<lparr>codes := [0, 0, 8]\<rparr>))) =
       Some [''success'' \<mapsto> JS_Boolean False,
             ''error'' \<mapsto> JS_String ''Failed to start scan'',
             ''errorCode'' \<mapsto> JS_Number 8]
   \<and> fst (GetScanners sim_sdk (ready (desk\<lparr>codes := [9]\<rparr>))) = []
   \<and> map_option (\<lambda>x. (fst x ''success'', fst x ''errorCode'')) (Scan sim_sdk job (ready desk)) =
       Some (Some (JS_Boolean True), None)"
  using
    failures_forwarded [where sdk = sim_sdk and w = "fresh (desk\<lparr>codes := [5]\<rparr>)"
      and r = 5 and v = "desk\<lparr>codes := []\<rparr>"]
    failures_forwarded [where sdk = sim_sdk and w = "ready (desk\<lparr>codes := [6]\<rparr>)"
      and options = job and ?r1.0 = 6 and h = NULL and ?v1.0 = "desk\<lparr>codes := []\<rparr>"]
    failures_forwarded [where sdk = sim_sdk and w = "ready (desk\<lparr>codes := [0, 4294967295]\<rparr>)"
      and options = job and h = 7 and ?v1.0 = "desk\<lparr>codes := [4294967295]\<rparr>"
      and ?r2.0 = 4294967295 and ?v2.0 = "desk\<lparr>codes := []\<rparr>"]
    failures_forwarded [where sdk = sim_sdk and w = "ready (desk\<lparr>codes := [0, 0, 8]\<rparr>)"
      and options = job and h = 7 and ?v1.0 = "desk\<lparr>codes := [0, 8]\<rparr>"
      and ?v2.0 = "desk\<lparr>codes := [8]\<rparr>" and ?r3.0 = 8 and ?v3.0 = "desk\<lparr>codes := []\<rparr>"]
    failures_forwarded [where sdk = sim_sdk and w = "ready (desk\<lparr>codes := [9]\<rparr>)"
      and r = 9 and n = 0 and v' = "desk\<lparr>codes := []\<rparr>"]
    failures_forwarded [where sdk = sim_sdk and w = "ready desk"
      and options = job and h = 7 and ?v1.0 = desk and ?v2.0 = desk and ?v3.0 = desk and m = 3]
  by (simp add: fresh_def ready_def desk_def job_def sim_consts sim_calls next_code_def
      NULL_def sim_pull_from sim_pull_code scan_param_def)

text \<open>
  C2 as the claim words it, for every operation and every call, fails on \<open>GetScanners\<close>:
  the device count returns 9, which is not \<open>SS_SUCCESS\<close>, and the caller receives an
  empty array and no code.
\<close>

theorem failures_forwarded_counterexample:
  "SS_SUCCESS sim_sdk = 0
   \<and> PfuSsGetDeviceCount sim_sdk (driver (ready (desk\<lparr>codes := [9]\<rparr>)))
       = (9, 0, desk\<lparr>codes := []\<rparr>)
   \<and> GetScanners sim_sdk (ready (desk\<lparr>codes := [9]\<rparr>))
       = ([], (ready (desk\<lparr>codes := []\<rparr>))\<lparr>calls := [Call_GetDeviceCount 9 0]\<rparr>)"
  by (simp add: GetScanners_def ready_def desk_def sim_consts sim_calls next_code_def called_def)


subsection \<open>The guards\<close>




subsection \<open>The handle after a failed scan\<close>

text \<open>
  C1 asks that \<open>g_hScanner\<close> be \<open>NULL\<close> whenever an operation returns, so that \<open>Cleanup\<close>
  never closes a handle that \<open>Scan\<close> has closed. The code does so at the end of a scan
  (lines 178 and 179), not on the two early returns after a failed configuration or a
  failed start (lines 142 to 159). Here the open succeeds with handle 7 and the
  configuration returns 5: \<open>Scan\<close> closes 7 and returns with \<open>g_hScanner\<close> still 7, and
  the \<open>Cleanup\<close> that follows closes 7 again.
\<close>

theorem stale_handle_after_failed_configure:
  "g_bInitialized (ready (desk\<lparr>codes := [0, 5]\<rparr>))
   \<and> map_option (calls \<circ> snd) (Scan sim_sdk job (ready (desk\<lparr>codes := [0, 5]\<rparr>))) =
       Some [Call_OpenDevice 0 0 7,
             Call_SetScanParam 7
               \<lparr>dwResolution = 300, dwPixelType = 2, dwDuplex = 1, dwPaperSize = 4\<rparr> 5,
             Call_CloseDevice 7]
   \<and> map_option (g_hScanner \<circ> snd) (Scan sim_sdk job (ready (desk\<lparr>codes := [0, 5]\<rparr>))) = Some 7
   \<and> NULL \<noteq> (7 :: HANDLE)
   \<and> map_option (calls \<circ> Cleanup sim_sdk \<circ> snd)
         (Scan sim_sdk job (ready (desk\<lparr>codes := [0, 5]\<rparr>))) =
       Some [Call_OpenDevice 0 0 7,
             Call_SetScanParam 7
               \<lparr>dwResolution = 300, dwPixelType = 2, dwDuplex = 1, dwPaperSize = 4\<rparr> 5,
             Call_CloseDevice 7,
             Call_CloseDevice 7,
             Call_Uninitialize]"
  by (simp add: Scan_def Cleanup_def ready_def desk_def job_def sim_consts sim_calls
      next_code_def called_def close_device_def scan_param_def NULL_def)

end
